theory Spec2Isabelle
  imports
    Complex_Main
    "HOL-Library.AList"
    "HOL-Library.Sublist"
    "HOL-Library.Multiset"
    "HOL-Library.Char_ord"
    "HOL-Library.List_Lexorder"
begin

section \<open>Data model (App.tsx, interface Defect)\<close>

text \<open>
  The dashboard keeps one array of \<open>Defect\<close> objects in React state and derives every
  view from it. The array is a list, an object of the interface a record. A field of
  type \<open>number\<close> is a \<open>real\<close>, the \<open>id\<close> an \<open>int\<close>: arithmetic on finite numbers is exact,
  the rounding of IEEE doubles is not part of this model, while the special values that
  a division by zero produces are (\<open>jsnum\<close> below). A \<open>string\<close> is a list of 8-bit
  characters. The field \<open>id\<close> is called \<open>id_d\<close> here, since \<open>id\<close> is the identity function
  of HOL, and the field \<open>note\<close> is \<open>note_d\<close>, since \<open>note\<close> is a keyword of the proof
  language.
\<close>

datatype rootCause = Yes | No

datatype category = Cosmetic | Functional | Critical

record defect =
  id_d :: int
  date :: string
  time :: string
  defectName :: string
  station :: string
  partOfCar :: string
  reporter :: string
  partNumber :: string
  severityRating :: real
  carModel :: string
  motorType :: string
  designPackage :: string
  productionShift :: string
  resolutionTime :: real
  rootCauseIdentified :: rootCause
  defectCategory :: category
  flagged :: bool
  note_d :: string
  status :: string

section \<open>Record store: the two mutations\<close>

text \<open>
  \<open>handleFlag\<close> and \<open>handleNoteUpdate\<close> read the current array and hand a new one to
  \<open>setData\<close>; they return nothing. The model is the state transformer: the array in,
  the array passed to \<open>setData\<close> out.
\<close>

definition handleFlag :: "int \<Rightarrow> defect list \<Rightarrow> defect list" where
  "handleFlag i data =
     map (\<lambda>d. if id_d d = i
              then d\<lparr>flagged := \<not> flagged d,
                     status := (if flagged d then '''' else ''Under Review'')\<rparr>
              else d) data"

definition handleNoteUpdate :: "int \<Rightarrow> string \<Rightarrow> defect list \<Rightarrow> defect list" where
  "handleNoteUpdate i n data = map (\<lambda>d. if id_d d = i then d\<lparr>note_d := n\<rparr> else d) data"

text \<open>
  The interface of section 6 of the specification, in its own words: \<open>setFlag\<close> and
  \<open>setNote\<close> are targeted mutations by id that answer an unknown id with an explicit
  not-found signal and leave the record set as it is. These two definitions follow the
  specification, not the source; they are what the handlers are compared with.
\<close>

datatype error = NotFoundError

definition setFlag_spec :: "int \<Rightarrow> defect list \<Rightarrow> error + defect list" where
  "setFlag_spec i data =
     (if i \<in> set (map id_d data) then Inr (handleFlag i data) else Inl NotFoundError)"

definition setNote_spec :: "int \<Rightarrow> string \<Rightarrow> defect list \<Rightarrow> error + defect list" where
  "setNote_spec i n data =
     (if i \<in> set (map id_d data) then Inr (handleNoteUpdate i n data) else Inl NotFoundError)"

section \<open>Numbers\<close>

text \<open>
  A value of JavaScript's number type as far as the analytics can produce one: a real,
  an infinity with its sign (\<open>Infinity True\<close> is \<open>+Infinity\<close>) or \<open>NaN\<close>. Finite
  arithmetic is exact; zero has no sign. The operations follow the language for the
  special values: \<open>0 / 0\<close> is \<open>NaN\<close>, a comparison with \<open>NaN\<close> is false.
\<close>

datatype jsnum = Num real | Infinity bool | NaN

fun js_neg :: "jsnum \<Rightarrow> jsnum" where
  "js_neg (Num x) = Num (- x)"
| "js_neg (Infinity s) = Infinity (\<not> s)"
| "js_neg NaN = NaN"

fun js_add :: "jsnum \<Rightarrow> jsnum \<Rightarrow> jsnum" where
  "js_add (Num x) (Num y) = Num (x + y)"
| "js_add (Num x) (Infinity t) = Infinity t"
| "js_add (Infinity s) (Num y) = Infinity s"
| "js_add (Infinity s) (Infinity t) = (if s = t then Infinity s else NaN)"
| "js_add NaN b = NaN"
| "js_add a NaN = NaN"

definition js_sub :: "jsnum \<Rightarrow> jsnum \<Rightarrow> jsnum" where
  "js_sub a b = js_add a (js_neg b)"

fun js_mul :: "jsnum \<Rightarrow> jsnum \<Rightarrow> jsnum" where
  "js_mul (Num x) (Num y) = Num (x * y)"
| "js_mul (Num x) (Infinity t) = (if x = 0 then NaN else Infinity (t = (0 < x)))"
| "js_mul (Infinity s) (Num y) = (if y = 0 then NaN else Infinity (s = (0 < y)))"
| "js_mul (Infinity s) (Infinity t) = Infinity (s = t)"
| "js_mul NaN b = NaN"
| "js_mul a NaN = NaN"

fun js_div :: "jsnum \<Rightarrow> jsnum \<Rightarrow> jsnum" where
  "js_div (Num x) (Num y) =
     (if y = 0 then (if x = 0 then NaN else Infinity (0 < x)) else Num (x / y))"
| "js_div (Num x) (Infinity t) = Num 0"
| "js_div (Infinity s) (Num y) = Infinity (s = (0 \<le> y))"
| "js_div (Infinity s) (Infinity t) = NaN"
| "js_div NaN b = NaN"
| "js_div a NaN = NaN"

fun js_sqrt :: "jsnum \<Rightarrow> jsnum" where
  "js_sqrt (Num x) = (if x < 0 then NaN else Num (sqrt x))"
| "js_sqrt (Infinity s) = (if s then Infinity True else NaN)"
| "js_sqrt NaN = NaN"

fun js_lt :: "jsnum \<Rightarrow> jsnum \<Rightarrow> bool" where
  "js_lt (Num x) (Num y) = (x < y)"
| "js_lt (Num x) (Infinity t) = t"
| "js_lt (Infinity s) (Num y) = (\<not> s)"
| "js_lt (Infinity s) (Infinity t) = (\<not> s \<and> t)"
| "js_lt NaN b = False"
| "js_lt a NaN = False"

definition js_gt :: "jsnum \<Rightarrow> jsnum \<Rightarrow> bool" where
  "js_gt a b = js_lt b a"

text \<open>
  \<open>parseFloat(x.toFixed(2))\<close> (also written \<open>+x.toFixed(2)\<close>) for a finite \<open>x\<close>:
  the multiple of 1/100 nearest to \<open>x\<close>, the one further from zero on a tie; from
  \<open>10^21\<close> on \<open>toFixed\<close> prints the number itself.
\<close>

definition toFixed2 :: "real \<Rightarrow> real" where
  "toFixed2 x =
     (if 10 ^ 21 \<le> \<bar>x\<bar> then x
      else if x < 0 then - (real_of_int \<lfloor>(- x) * 100 + 1 / 2\<rfloor> / 100)
      else real_of_int \<lfloor>x * 100 + 1 / 2\<rfloor> / 100)"

section \<open>Objects used as dictionaries, arrays\<close>

text \<open>
  A \<open>Record<string, V>\<close> built by assignment is an association list in the order the
  properties were created: \<open>map_of\<close> reads a property, \<open>AList.update\<close> assigns one
  (in place when it exists, at the end when it is new). Keys are assumed not to name a
  property that every object inherits (\<open>constructor\<close>, \<open>toString\<close>, ...).
  \<open>Object.entries\<close> lists the properties whose key is an array index (a canonical
  decimal numeral below \<open>2^32 - 1\<close>) first, in ascending numeric order, then the others
  in creation order.
\<close>

type_synonym 'v obj = "(string \<times> 'v) list"

definition isDigit :: "char \<Rightarrow> bool" where
  "isDigit c = (48 \<le> (of_char c :: nat) \<and> (of_char c :: nat) \<le> 57)"

definition digitsVal :: "string \<Rightarrow> nat" where
  "digitsVal s = foldl (\<lambda>a c. 10 * a + ((of_char c :: nat) - 48)) 0 s"

definition isArrayIndex :: "string \<Rightarrow> bool" where
  "isArrayIndex s =
     (s \<noteq> [] \<and> list_all isDigit s \<and> (if hd s = CHR ''0'' then s = ''0'' else True)
      \<and> digitsVal s < 2 ^ 32 - 1)"

definition objectEntries :: "'v obj \<Rightarrow> (string \<times> 'v) list" where
  "objectEntries m =
     sort_key (\<lambda>e. digitsVal (fst e)) (filter (\<lambda>e. isArrayIndex (fst e)) m)
     @ filter (\<lambda>e. \<not> isArrayIndex (fst e)) m"

text \<open>\<open>x || 0\<close> for a count read from a dictionary: a missing property counts as 0.\<close>

fun or0 :: "nat option \<Rightarrow> nat" where
  "or0 None = 0"
| "or0 (Some c) = c"

text \<open>
  \<open>Array.prototype.sort\<close> with a comparator. Every comparator of the program orders
  by one value of each element, so it is consistent, and the language then fixes the
  result: the stable sort. Insertion from the right end computes it.
\<close>

fun insert_by :: "('a \<Rightarrow> 'a \<Rightarrow> real) \<Rightarrow> 'a \<Rightarrow> 'a list \<Rightarrow> 'a list" where
  "insert_by cmp x [] = [x]"
| "insert_by cmp x (y # ys) = (if cmp x y \<le> 0 then x # y # ys else y # insert_by cmp x ys)"

definition sort_by :: "('a \<Rightarrow> 'a \<Rightarrow> real) \<Rightarrow> 'a list \<Rightarrow> 'a list" where
  "sort_by cmp xs = foldr (insert_by cmp) xs []"

text \<open>\<open>Array.from(new Set(xs))\<close>: the elements in the order of their first occurrence.\<close>

definition uniq :: "'a list \<Rightarrow> 'a list" where
  "uniq xs = foldl (\<lambda>acc x. if x \<in> set acc then acc else acc @ [x]) [] xs"

section \<open>Statistical outlier engine\<close>

record bounds =
  mean :: jsnum
  stdDev :: jsnum
  lowerBound :: jsnum
  upperBound :: jsnum

record outliers =
  ob_resolutionTime :: bounds
  ob_severityRating :: bounds
  staticCritical :: real

text \<open>
  The body of \<open>metrics.forEach\<close> in \<open>calculateOutliers\<close>, for the values of one metric.
  \<open>Math.pow(b - mean, 2)\<close> is the product of \<open>b - mean\<close> with itself.
\<close>

definition metricBounds :: "real \<Rightarrow> real list \<Rightarrow> bounds" where
  "metricBounds stdDevThreshold values =
     (let mean = js_div (foldl (\<lambda>a b. js_add a (Num b)) (Num 0) values)
                        (Num (real (length values)));
          variance = js_div (foldl (\<lambda>a b. js_add a (js_mul (js_sub (Num b) mean)
                                                             (js_sub (Num b) mean)))
                                   (Num 0) values)
                            (Num (real (length values)));
          stdDev = js_sqrt variance
      in \<lparr> mean = mean, stdDev = stdDev,
           lowerBound = js_sub mean (js_mul (Num stdDevThreshold) stdDev),
           upperBound = js_add mean (js_mul (Num stdDevThreshold) stdDev) \<rparr>)"

definition calculateOutliers :: "defect list \<Rightarrow> real \<Rightarrow> outliers" where
  "calculateOutliers data stdDevThreshold =
     \<lparr> ob_resolutionTime = metricBounds stdDevThreshold (map resolutionTime data),
       ob_severityRating = metricBounds stdDevThreshold (map severityRating data),
       staticCritical = 8 \<rparr>"

definition isOutlier :: "defect list \<Rightarrow> real \<Rightarrow> defect \<Rightarrow> bool" where
  "isOutlier data stdDevThreshold record =
     (let resTime = ob_resolutionTime (calculateOutliers data stdDevThreshold);
          sevTime = ob_severityRating (calculateOutliers data stdDevThreshold)
      in js_gt (Num (resolutionTime record)) (upperBound resTime)
         \<or> js_lt (Num (resolutionTime record)) (lowerBound resTime)
         \<or> js_gt (Num (severityRating record)) (upperBound sevTime)
         \<or> staticCritical (calculateOutliers data stdDevThreshold) \<le> severityRating record)"

text \<open>The population variance of a list of values, to state what the engine computes.\<close>

definition variance_of :: "real list \<Rightarrow> real" where
  "variance_of vs =
     (\<Sum>b\<leftarrow>vs. (b - sum_list vs / real (length vs)) * (b - sum_list vs / real (length vs)))
       / real (length vs)"

section \<open>Pareto engine\<close>

text \<open>One counting step of a loop: \<open>acc[k] = (acc[k] || 0) + 1\<close>.\<close>

definition bump :: "string \<Rightarrow> nat obj \<Rightarrow> nat obj" where
  "bump k acc = AList.update k (or0 (map_of acc k) + 1) acc"

record paretoRow =
  pr_name :: string
  pr_count :: nat
  pr_pct :: real
  pr_cumPct :: real

text \<open>
  The chain \<open>Object.entries(counts).map(...).sort(...).map(...)\<close>, the same for both
  dimensions (the key is the field \<open>name\<close> of a defect row and \<open>part\<close> of a part row;
  \<open>pr_name\<close> stands for both). The source's \<open>total\<close> is \<open>totalN\<close>.
\<close>

definition paretoRows :: "nat \<Rightarrow> nat obj \<Rightarrow> paretoRow list" where
  "paretoRows totalN counts =
     (let arr = sort_by (\<lambda>a b. real (snd b) - real (snd a)) (objectEntries counts)
      in map (\<lambda>i. let row = arr ! i;
                      cum = foldl (\<lambda>s r. s + snd r) 0 (take (i + 1) arr)
                  in \<lparr> pr_name = fst row, pr_count = snd row,
                       pr_pct = toFixed2 (real (snd row) / real totalN * 100),
                       pr_cumPct = toFixed2 (real cum / real totalN * 100) \<rparr>)
             [0..<length arr])"

record paretoResult =
  defectsPareto :: "paretoRow list"
  partsPareto :: "paretoRow list"

definition pareto :: "defect list \<Rightarrow> paretoResult" where
  "pareto data =
     (let counts = foldl (\<lambda>(countByDefect, countByPart) d.
                            (bump (defectName d) countByDefect, bump (partOfCar d) countByPart))
                         ([], []) data;
          totalN = (if length data = 0 then 1 else length data)
      in \<lparr> defectsPareto = paretoRows totalN (fst counts),
           partsPareto = paretoRows totalN (snd counts) \<rparr>)"

section \<open>Heatmap engine\<close>

record heatRow =
  hr_defectName :: string
  hr_station :: string
  hr_shift :: string
  hr_count :: nat

record heatmapResult =
  topDefects :: "string list"
  stations :: "string list"
  shifts :: "string list"
  rows :: "heatRow list"
  maxCount :: nat

type_synonym cube = "nat obj obj obj"

text \<open>One round of the loop that fills \<open>cube\<close>.\<close>

definition cubeStep :: "string list \<Rightarrow> cube \<Rightarrow> defect \<Rightarrow> cube" where
  "cubeStep topN cube d =
     (if defectName d \<notin> set topN then cube
      else let byStation = (case map_of cube (defectName d) of None \<Rightarrow> [] | Some x \<Rightarrow> x);
               byShift = (case map_of byStation (station d) of None \<Rightarrow> [] | Some x \<Rightarrow> x)
           in AList.update (defectName d)
                (AList.update (station d) (bump (productionShift d) byShift) byStation) cube)"

text \<open>\<open>cube[defect]?.[st]?.[sh] ?? 0\<close>\<close>

definition cubeGet :: "cube \<Rightarrow> string \<Rightarrow> string \<Rightarrow> string \<Rightarrow> nat" where
  "cubeGet cube defect st sh =
     (case map_of cube defect of None \<Rightarrow> 0
      | Some byStation \<Rightarrow>
          (case map_of byStation st of None \<Rightarrow> 0
           | Some byShift \<Rightarrow> (case map_of byShift sh of None \<Rightarrow> 0 | Some c \<Rightarrow> c)))"

definition heatmap :: "defect list \<Rightarrow> heatmapResult" where
  "heatmap data =
     (let countsByDefect = foldl (\<lambda>acc d. bump (defectName d) acc) [] data;
          topN = map fst (take 6 (sort_by (\<lambda>a b. real (snd b) - real (snd a))
                                          (objectEntries countsByDefect)));
          stations = uniq (map station data);
          shifts = uniq (map productionShift data);
          cube = foldl (cubeStep topN) [] data;
          rows = concat (map (\<lambda>defect. concat (map (\<lambda>st. map (\<lambda>sh.
                    \<lparr> hr_defectName = defect, hr_station = st, hr_shift = sh,
                      hr_count = cubeGet cube defect st sh \<rparr>) shifts) stations)) topN);
          maxCount = foldl (\<lambda>m r. if m < hr_count r then hr_count r else m) 0 rows
      in \<lparr> topDefects = topN, stations = stations, shifts = shifts, rows = rows,
           maxCount = max maxCount 1 \<rparr>)"

section \<open>Recurrence engine (triads)\<close>

record triad =
  tr_defectName :: string
  tr_station :: string
  tr_partOfCar :: string
  tr_count :: nat
  tr_sumSeverity :: real
  tr_sumResH :: real
  tr_rootCauseNo :: nat

record triadRow = triad +
  tr_avgSeverity :: real
  tr_avgResH :: real

record triadScored = triadRow +
  tr_score :: real

definition keyOf :: "defect \<Rightarrow> string" where
  "keyOf d = defectName d @ ''|||'' @ station d @ ''|||'' @ partOfCar d"

text \<open>
  One round of the grouping loop: the group of the record's key is created with zero
  sums when it is missing, then the record is added to it.
\<close>

definition triadStep :: "triad obj \<Rightarrow> defect \<Rightarrow> triad obj" where
  "triadStep m d =
     (let k = keyOf d;
          r = (case map_of m k of
                 None \<Rightarrow> \<lparr> tr_defectName = defectName d, tr_station = station d,
                           tr_partOfCar = partOfCar d, tr_count = 0, tr_sumSeverity = 0,
                           tr_sumResH = 0, tr_rootCauseNo = 0 \<rparr>
               | Some r \<Rightarrow> r)
      in AList.update k
           (r\<lparr> tr_count := tr_count r + 1,
               tr_sumSeverity := tr_sumSeverity r + severityRating d,
               tr_sumResH := tr_sumResH r + resolutionTime d,
               tr_rootCauseNo := tr_rootCauseNo r
                                   + (if rootCauseIdentified d = No then 1 else 0) \<rparr>) m)"

text \<open>
  The two \<open>map\<close> calls of \<open>triads\<close>: the averages, each through \<open>toFixed(2)\<close>, then
  the score, computed from the fields \<open>avgSeverity\<close> and \<open>avgResH\<close> of the row.
  A group's count is at least 1, so the divisions are divisions of reals.
\<close>

definition withAverages :: "triad \<Rightarrow> triadRow" where
  "withAverages r =
     triad.extend r
       (triadRow.fields (toFixed2 (tr_sumSeverity r / real (tr_count r)))
                        (toFixed2 (tr_sumResH r / real (tr_count r))))"

definition withScore :: "triadRow \<Rightarrow> triadScored" where
  "withScore r =
     triadRow.extend r
       (triadScored.fields
          (toFixed2 (real (tr_count r) * (0.6 + 0.4 * (tr_avgSeverity r / 10))
                     + 0.2 * tr_avgResH r)))"

record triadsResult =
  byCount :: "triadScored list"
  byScore :: "triadScored list"

definition triads :: "defect list \<Rightarrow> triadsResult" where
  "triads data =
     (let m = foldl triadStep [] data;
          scored = map withScore (map withAverages (map snd (objectEntries m)))
      in \<lparr> byCount = sort_by (\<lambda>a b. real (tr_count b) - real (tr_count a)) scored,
           byScore = sort_by (\<lambda>a b. tr_score b - tr_score a) scored \<rparr>)"

section \<open>Recurrence explorer: the target defect\<close>

text \<open>
  Of the explorer's result the quick actions and the properties below read the target
  only: \<open>None\<close> when the explorer returns \<open>null\<close>, the target defect otherwise. A
  JavaScript string is falsy exactly when it is empty, so \<open>!selectedDefect\<close> holds
  for \<open>null\<close> and for the empty string, and so does \<open>!top\<close>.
\<close>

definition falsy :: "string option \<Rightarrow> bool" where
  "falsy s = (s = None \<or> s = Some [])"

definition recurrenceExplorer_target :: "string option \<Rightarrow> defect list \<Rightarrow> string option" where
  "recurrenceExplorer_target selectedDefect data =
     (if falsy selectedDefect
      then (let counts = foldl (\<lambda>acc d. bump (defectName d) acc) [] data;
                top = (case sort_by (\<lambda>a b. real (snd b) - real (snd a)) (objectEntries counts) of
                         [] \<Rightarrow> None
                       | e # _ \<Rightarrow> Some (fst e))
            in if falsy top then None else top)
      else selectedDefect)"

section \<open>Quick-action recommender\<close>

record agg =
  ag_count :: nat
  ag_sumSev :: real
  ag_sumResH :: real

text \<open>
  A candidate. Its \<open>label\<close> and \<open>filter\<close> are display strings cut out of the group's
  key; nothing computes with them, and the key stands for both here.
\<close>

record cand =
  c_key :: string
  c_count :: nat
  c_avgSev :: real
  c_avgResH :: real
  c_score :: real

definition aggStep :: "(defect \<Rightarrow> string) \<Rightarrow> agg obj \<Rightarrow> defect \<Rightarrow> agg obj" where
  "aggStep keyFn m r =
     (let v = (case map_of m (keyFn r) of
                 None \<Rightarrow> \<lparr> ag_count = 0, ag_sumSev = 0, ag_sumResH = 0 \<rparr>
               | Some v \<Rightarrow> v)
      in AList.update (keyFn r)
           (v\<lparr> ag_count := ag_count v + 1,
               ag_sumSev := ag_sumSev v + severityRating r,
               ag_sumResH := ag_sumResH v + resolutionTime r \<rparr>) m)"

text \<open>The body of the loops over \<open>Object.entries(ssMap)\<close> and \<open>Object.entries(spMap)\<close>.\<close>

definition candOf :: "string \<times> agg \<Rightarrow> cand" where
  "candOf e =
     (let v = snd e;
          avgSev = ag_sumSev v / real (ag_count v);
          avgResH = ag_sumResH v / real (ag_count v);
          score = real (ag_count v) * (0.6 + 0.4 * (avgSev / 10)) + 0.2 * avgResH
      in \<lparr> c_key = fst e, c_count = ag_count v, c_avgSev = toFixed2 avgSev,
           c_avgResH = toFixed2 avgResH, c_score = toFixed2 score \<rparr>)"

definition candidates :: "string \<Rightarrow> defect list \<Rightarrow> cand list" where
  "candidates target data =
     (let rs = filter (\<lambda>d. defectName d = target) data;
          ssMap = foldl (aggStep (\<lambda>r. station r @ ''|||'' @ productionShift r)) [] rs;
          spMap = foldl (aggStep (\<lambda>r. station r @ ''|||'' @ partOfCar r)) [] rs
      in map candOf (objectEntries ssMap) @ map candOf (objectEntries spMap))"

definition quickActions :: "string option \<Rightarrow> defect list \<Rightarrow> cand list" where
  "quickActions selectedDefect data =
     (case recurrenceExplorer_target selectedDefect data of
        None \<Rightarrow> []
      | Some target \<Rightarrow>
          take 3 (sort_by (\<lambda>a b. c_score b - c_score a) (candidates target data)))"

section \<open>Filter and sort view\<close>






definition toLowerChar :: "char \<Rightarrow> char" where
  "toLowerChar c =
     (if 65 \<le> (of_char c :: nat) \<and> (of_char c :: nat) \<le> 90
      then char_of ((of_char c :: nat) + 32) else c)"

definition toLowerCase :: "string \<Rightarrow> string" where
  "toLowerCase s = map toLowerChar s"








section \<open>Sample records\<close>

definition rec0 :: defect where
  "rec0 = \<lparr> id_d = 1, date = ''2025-01-15'', time = ''08:30'',
            defectName = ''Misalignment'', station = ''Body Shop'',
            partOfCar = ''Door Panel'', reporter = ''Lisa Chen'',
            partNumber = ''BMW-1234'', severityRating = 1, carModel = ''Base'',
            motorType = ''Long Range'', designPackage = ''Race'',
            productionShift = ''Morning'', resolutionTime = 1,
            rootCauseIdentified = Yes, defectCategory = Cosmetic,
            flagged = False, note_d = '''', status = '''' \<rparr>"

definition rec1 :: defect where
  "rec1 = rec0\<lparr> id_d := 2, defectName := ''Paint Defect'', station := ''Paint Shop'',
                 reporter := ''Hans Mueller'', severityRating := 3, resolutionTime := 3,
                 productionShift := ''Night'', flagged := True,
                 status := ''Under Review'', note_d := ''recheck'' \<rparr>"


text \<open>
  Seven records of one defect, station, part and shift, with severities
  1, 1, 1, 1, 1, 2, 2 and a resolution time of 0.52 hours each.
\<close>

definition group7 :: "defect list" where
  "group7 = map (\<lambda>(i, s). rec0\<lparr> id_d := i, severityRating := s, resolutionTime := 0.52 \<rparr>)
              [(1, 1), (2, 1), (3, 1), (4, 1), (5, 1), (6, 2), (7, 2)]"

section \<open>Properties of the mutations\<close>

lemma handleFlag_length: "length (handleFlag i data) = length data"
  by (simp add: handleFlag_def)

lemma handleNoteUpdate_length: "length (handleNoteUpdate i n data) = length data"
  by (simp add: handleNoteUpdate_def)

text \<open>
  C8. For a record set and an id, at every position of the array: a record with that
  id that was unflagged comes out flagged with status "Under Review", one that was
  flagged comes out unflagged with the empty status, and nothing else of it changes;
  records with another id are untouched. \<open>handleNoteUpdate\<close> sets the note of the
  records with that id and changes no other field of any record.
\<close>

theorem flag_and_note_mutations:
  assumes "k < length data"
  shows "(id_d (data ! k) = i \<and> \<not> flagged (data ! k) \<longrightarrow>
            handleFlag i data ! k = (data ! k)\<lparr>flagged := True, status := ''Under Review''\<rparr>)
       \<and> (id_d (data ! k) = i \<and> flagged (data ! k) \<longrightarrow>
            handleFlag i data ! k = (data ! k)\<lparr>flagged := False, status := ''''\<rparr>)
       \<and> (id_d (data ! k) \<noteq> i \<longrightarrow> handleFlag i data ! k = data ! k)
       \<and> length (handleFlag i data) = length data
       \<and> (id_d (data ! k) = i \<longrightarrow>
            handleNoteUpdate i n data ! k = (data ! k)\<lparr>note_d := n\<rparr>)
       \<and> (id_d (data ! k) \<noteq> i \<longrightarrow> handleNoteUpdate i n data ! k = data ! k)
       \<and> (handleNoteUpdate i n data ! k)\<lparr>note_d := note_d (data ! k)\<rparr> = data ! k
       \<and> length (handleNoteUpdate i n data) = length data"
  using assms by (simp add: handleFlag_def handleNoteUpdate_def)

theorem flag_and_note_mutations_witness:
  "handleFlag 1 [rec0, rec1] ! 0 = rec0\<lparr>flagged := True, status := ''Under Review''\<rparr>
   \<and> handleFlag 2 [rec0, rec1] ! 1 = rec1\<lparr>flagged := False, status := ''''\<rparr>
   \<and> handleFlag 2 [rec0, rec1] ! 0 = rec0
   \<and> handleNoteUpdate 1 ''seen'' [rec0, rec1] ! 0 = rec0\<lparr>note_d := ''seen''\<rparr>
   \<and> handleNoteUpdate 1 ''seen'' [rec0, rec1] ! 1 = rec1"
proof -
  have k0: "0 < length [rec0, rec1]" and k1: "1 < length [rec0, rec1]"
    by simp_all
  have a: "id_d rec0 = 1" "id_d rec1 = 2" "\<not> flagged rec0" "flagged rec1"
    by (simp_all add: rec0_def rec1_def)
  show ?thesis
    using flag_and_note_mutations [OF k0, of 1 "''seen''"]
      flag_and_note_mutations [OF k0, of 2 "''seen''"]
      flag_and_note_mutations [OF k1, of 2 "''seen''"]
      flag_and_note_mutations [OF k1, of 1 "''seen''"] a
    by simp
qed

text \<open>
  C4, as the code has it. An id that no record carries makes both mutations the
  identity on the record set. Neither handler has a result besides the new array, so
  an unknown id is a silent no-op.
\<close>

theorem mutation_unknown_id_noop:
  assumes "i \<notin> set (map id_d data)"
  shows "handleFlag i data = data \<and> handleNoteUpdate i n data = data"
proof -
  have "\<forall>d \<in> set data. id_d d \<noteq> i"
    using assms by auto
  then show ?thesis
    by (simp add: handleFlag_def handleNoteUpdate_def map_idI)
qed

theorem mutation_unknown_id_noop_witness:
  "(7::int) \<notin> set (map id_d [rec0, rec1])
   \<and> handleFlag 7 [rec0, rec1] = [rec0, rec1]
   \<and> handleNoteUpdate 7 ''x'' [rec0, rec1] = [rec0, rec1]"
proof -
  have h: "(7::int) \<notin> set (map id_d [rec0, rec1])"
    by (simp add: rec0_def rec1_def)
  show ?thesis
    using h mutation_unknown_id_noop [OF h, of "''x''"] by simp
qed

text \<open>
  C4, as the specification states it, fails: for the unknown id 7 the specified
  operations answer \<open>NotFoundError\<close>, while the handlers just produce the next state.
\<close>

theorem mutation_not_found_signal_counterexample:
  "setFlag_spec 7 [rec0, rec1] = Inl NotFoundError
   \<and> Inr (handleFlag 7 [rec0, rec1]) \<noteq> setFlag_spec 7 [rec0, rec1]
   \<and> setNote_spec 7 ''x'' [rec0, rec1] = Inl NotFoundError
   \<and> Inr (handleNoteUpdate 7 ''x'' [rec0, rec1]) \<noteq> setNote_spec 7 ''x'' [rec0, rec1]"
  by (simp add: setFlag_spec_def setNote_spec_def rec0_def rec1_def)

section \<open>Sorting and enumeration keep the elements\<close>

lemma mset_insert_by: "mset (insert_by cmp x ys) = add_mset x (mset ys)"
  by (induction ys) simp_all

lemma mset_sort_by: "mset (sort_by cmp xs) = mset xs"
  by (induction xs) (simp_all add: sort_by_def mset_insert_by)

lemma set_sort_by: "set (sort_by cmp xs) = set xs"
  using mset_sort_by [of cmp xs] by (metis set_mset_mset)







section \<open>Counting loops\<close>















section \<open>Outlier engine\<close>

lemma foldl_add_Num: "foldl (\<lambda>a b. js_add a (Num b)) (Num s) vs = Num (s + sum_list vs)"
  by (induction vs arbitrary: s) (simp_all add: algebra_simps)

lemma foldl_sq_Num:
  "foldl (\<lambda>a b. js_add a (js_mul (js_sub (Num b) (Num m)) (js_sub (Num b) (Num m)))) (Num s) vs
     = Num (s + (\<Sum>b\<leftarrow>vs. (b - m) * (b - m)))"
  by (induction vs arbitrary: s) (simp_all add: algebra_simps js_sub_def)

lemma variance_nonneg: "0 \<le> variance_of vs"
  unfolding variance_of_def by (intro divide_nonneg_nonneg sum_list_nonneg) auto

text \<open>
  On a non-empty list the engine computes the population mean and standard deviation
  and the two bounds, all finite.
\<close>

lemma metricBounds_nonempty:
  assumes "vs \<noteq> []"
  shows "metricBounds k vs =
     \<lparr> mean = Num (sum_list vs / real (length vs)),
       stdDev = Num (sqrt (variance_of vs)),
       lowerBound = Num (sum_list vs / real (length vs) - k * sqrt (variance_of vs)),
       upperBound = Num (sum_list vs / real (length vs) + k * sqrt (variance_of vs)) \<rparr>"
proof -
  let ?n = "real (length vs)" and ?m = "sum_list vs / real (length vs)"
  have n: "?n \<noteq> 0" using assms by simp
  have v: "\<not> variance_of vs < 0" using variance_nonneg [of vs] by simp
  have mean: "js_div (foldl (\<lambda>a b. js_add a (Num b)) (Num 0) vs) (Num ?n) = Num ?m"
    using n by (simp add: foldl_add_Num)
  have var: "js_div (foldl (\<lambda>a b. js_add a (js_mul (js_sub (Num b) (Num ?m))
                                                       (js_sub (Num b) (Num ?m))))
                       (Num 0) vs) (Num ?n) = Num (variance_of vs)"
    using n by (simp add: foldl_sq_Num variance_of_def)
  show ?thesis
    unfolding metricBounds_def Let_def mean var
    using v by (simp add: js_sub_def)
qed

lemma metricBounds_empty:
  "metricBounds k [] = \<lparr> mean = NaN, stdDev = NaN, lowerBound = NaN, upperBound = NaN \<rparr>"
  by (simp add: metricBounds_def js_sub_def)

text \<open>
  C5. For thresholds \<open>k \<le> k'\<close> of the valid range from 1 to 3, a record that is no
  outlier at \<open>k\<close> is none at \<open>k'\<close>, whatever the record set; and a record of
  severity 8 or more is an outlier at every threshold.
\<close>

theorem isOutlier_monotonic_in_threshold:
  assumes "1 \<le> k" and "k \<le> k'" and "k' \<le> 3"
  shows "(\<not> isOutlier data k d \<longrightarrow> \<not> isOutlier data k' d)
       \<and> (8 \<le> severityRating d \<longrightarrow> isOutlier data k d \<and> isOutlier data k' d)"
proof (cases "data = []")
  case True
  then show ?thesis
    by (simp add: isOutlier_def calculateOutliers_def metricBounds_empty js_gt_def)
next
  case False
  then have ne: "map resolutionTime data \<noteq> []" "map severityRating data \<noteq> []"
    by simp_all
  let ?sr = "sqrt (variance_of (map resolutionTime data))"
  let ?ss = "sqrt (variance_of (map severityRating data))"
  have "0 \<le> ?sr" and "0 \<le> ?ss"
    using variance_nonneg by simp_all
  then have "k * ?sr \<le> k' * ?sr" and "k * ?ss \<le> k' * ?ss"
    using assms by (simp_all add: mult_right_mono)
  then show ?thesis
    by (auto simp add: isOutlier_def calculateOutliers_def js_gt_def Let_def
          metricBounds_nonempty [OF ne(1)] metricBounds_nonempty [OF ne(2)])
qed

theorem isOutlier_monotonic_in_threshold_witness:
  "\<not> isOutlier [rec0, rec1] 1 rec1 \<and> \<not> isOutlier [rec0, rec1] 2 rec1
   \<and> isOutlier [rec0, rec1] 1 (rec1\<lparr>severityRating := 9\<rparr>)
   \<and> isOutlier [rec0, rec1] 2 (rec1\<lparr>severityRating := 9\<rparr>)"
proof -
  have k: "(1::real) \<le> 1" "(1::real) \<le> 2" "(2::real) \<le> 3"
    by simp_all
  have a: "\<not> isOutlier [rec0, rec1] 1 rec1"
    by (simp add: isOutlier_def calculateOutliers_def metricBounds_def rec1_def rec0_def
          js_sub_def js_gt_def Let_def)
  have b: "8 \<le> severityRating (rec1\<lparr>severityRating := 9\<rparr>)"
    by simp
  show ?thesis
    using a b isOutlier_monotonic_in_threshold [OF k, where data = "[rec0, rec1]" and d = rec1]
      isOutlier_monotonic_in_threshold
        [OF k, where data = "[rec0, rec1]" and d = "rec1\<lparr>severityRating := 9\<rparr>"]
    by blast
qed

text \<open>
  C1, at the empty record set. The outlier engine divides the empty sum by the length
  0: mean, standard deviation and both bounds of both metrics are \<open>NaN\<close>, for every
  threshold. The Pareto engine replaces the total 0 by 1 and returns two empty lists.
\<close>

theorem calculateOutliers_empty_NaN:
  "calculateOutliers [] k =
     \<lparr> ob_resolutionTime = \<lparr> mean = NaN, stdDev = NaN, lowerBound = NaN, upperBound = NaN \<rparr>,
       ob_severityRating = \<lparr> mean = NaN, stdDev = NaN, lowerBound = NaN, upperBound = NaN \<rparr>,
       staticCritical = 8 \<rparr>"
  by (simp add: calculateOutliers_def metricBounds_empty)

lemma pareto_empty: "pareto [] = \<lparr> defectsPareto = [], partsPareto = [] \<rparr>"
  by (simp add: pareto_def paretoRows_def objectEntries_def sort_by_def)

section \<open>Pareto engine\<close>














section \<open>Heatmap engine\<close>
















section \<open>The most frequent defect, three times\<close>


lemma falsy_Some: "falsy (Some t) = (t = [])"
  by (simp add: falsy_def)






section \<open>Impact scores\<close>

lemma not_index_letter:
  "\<not> isArrayIndex (CHR ''M'' # s)" "\<not> isArrayIndex (CHR ''B'' # s)"
  by (simp_all add: isArrayIndex_def isDigit_def)

lemma triads_map_group7:
  "foldl triadStep [] group7 =
     [(''Misalignment|||Body Shop|||Door Panel'',
       \<lparr> tr_defectName = ''Misalignment'', tr_station = ''Body Shop'',
         tr_partOfCar = ''Door Panel'', tr_count = 7, tr_sumSeverity = 9,
         tr_sumResH = 3.64, tr_rootCauseNo = 0 \<rparr>)]"
  by (simp add: group7_def rec0_def triadStep_def keyOf_def Let_def)

lemma triads_group7:
  "map tr_score (byScore (triads group7)) = [4.67]"
  "map tr_avgSeverity (byScore (triads group7)) = [1.29]"
  "map tr_avgResH (byScore (triads group7)) = [0.52]"
  by (simp_all add: triads_def triads_map_group7 objectEntries_def not_index_letter Let_def
        sort_by_def withScore_def withAverages_def toFixed2_def
        triad.defs triadRow.defs triadScored.defs)




text \<open>
  What the two scorings compute from a group's count and sums: \<open>triads\<close> rounds each
  average to two decimals and scores the rounded values, the quick actions score the
  averages as they are.
\<close>

lemma triad_score_formula:
  "tr_score (withScore (withAverages r)) =
     toFixed2 (real (tr_count r)
                 * (0.6 + 0.4 * (toFixed2 (tr_sumSeverity r / real (tr_count r)) / 10))
               + 0.2 * toFixed2 (tr_sumResH r / real (tr_count r)))"
  by (simp add: withScore_def withAverages_def triad.defs triadRow.defs triadScored.defs)

lemma cand_score_formula:
  "c_score (candOf (k, v)) =
     toFixed2 (real (ag_count v) * (0.6 + 0.4 * ((ag_sumSev v / real (ag_count v)) / 10))
               + 0.2 * (ag_sumResH v / real (ag_count v)))"
  by (simp only: candOf_def Let_def fst_conv snd_conv cand.select_convs)

text \<open>
  C2, at the seven records \<open>group7\<close> (one triad: count 7, severities summing to 9,
  resolution times summing to 3.64). The score of the specification, from the
  full-precision averages 9/7 and 0.52, is 4.66. \<open>triads\<close> first rounds the average
  severity to 1.29 and reports the score 4.67.
\<close>

theorem triads_score_rounds_averages_first:
  "toFixed2 (7 * (0.6 + 0.4 * ((9 / 7) / 10)) + 0.2 * (3.64 / 7)) = 4.66
   \<and> map tr_avgSeverity (byScore (triads group7)) = [1.29]
   \<and> map tr_score (byScore (triads group7)) = [4.67]"
  by (simp add: triads_group7 toFixed2_def)


section \<open>Filter and sort view\<close>

lemma toLowerCase_append: "toLowerCase (a @ b) = toLowerCase a @ toLowerCase b"
  by (simp add: toLowerCase_def)








section \<open>Groups are never empty; the engines on the empty record set\<close>

lemma set_update_subset: "set (AList.update k v al) \<subseteq> insert (k, v) (set al)"
  by (induction al) auto

text \<open>
  Every group of \<open>triads\<close> and of the quick actions holds at least one record, so the
  averages divide by a positive count.
\<close>

lemma triads_counts_positive:
  assumes "\<forall>e \<in> set m. 0 < tr_count (snd e)"
  shows "\<forall>e \<in> set (foldl triadStep m data). 0 < tr_count (snd e)"
  using assms
proof (induction data arbitrary: m)
  case Nil
  then show ?case by simp
next
  case (Cons d data)
  have "\<forall>e \<in> set (triadStep m d). 0 < tr_count (snd e)"
    using Cons.prems set_update_subset [of "keyOf d" _ m]
    by (fastforce simp add: triadStep_def Let_def)
  then show ?case
    using Cons.IH by simp
qed

lemma agg_counts_positive:
  assumes "\<forall>e \<in> set m. 0 < ag_count (snd e)"
  shows "\<forall>e \<in> set (foldl (aggStep keyFn) m rs). 0 < ag_count (snd e)"
  using assms
proof (induction rs arbitrary: m)
  case Nil
  then show ?case by simp
next
  case (Cons r rs)
  have "\<forall>e \<in> set (aggStep keyFn m r). 0 < ag_count (snd e)"
    using Cons.prems set_update_subset [of "keyFn r" _ m]
    by (fastforce simp add: aggStep_def Let_def)
  then show ?case
    using Cons.IH by simp
qed

text \<open>On the empty record set the other engines return empty results.\<close>

lemma heatmap_empty:
  "heatmap [] = \<lparr> topDefects = [], stations = [], shifts = [], rows = [], maxCount = 1 \<rparr>"
  by (simp add: heatmap_def objectEntries_def sort_by_def uniq_def)

lemma triads_empty: "triads [] = \<lparr> byCount = [], byScore = [] \<rparr>"
  by (simp add: triads_def objectEntries_def sort_by_def)

lemma explorer_empty: "recurrenceExplorer_target None [] = None"
  by (simp add: recurrenceExplorer_target_def falsy_def objectEntries_def sort_by_def)

lemma quickActions_empty: "quickActions None [] = []"
  by (simp add: quickActions_def explorer_empty)

lemma isOutlier_empty: "isOutlier [] k d = (8 \<le> severityRating d)"
  by (simp add: isOutlier_def calculateOutliers_def metricBounds_empty js_gt_def)

end
